theory Spec2Isabelle
  imports Complex_Main "HOL-Library.AList" "HOL-Library.Char_ord" "HOL-Library.List_Lexorder"
    "HOL-Library.Multiset"
begin

section \<open>JavaScript values used by the scheduling code\<close>

text \<open>
  A JavaScript number is modelled as an exact rational, with \<open>None\<close> for \<open>NaN\<close>.
  Binary floating-point rounding is not modelled: \<open>480 / 60\<close> is exactly \<open>8\<close>, and so is
  every other quotient. Infinities do not arise (the code divides by constants only).
\<close>

type_synonym num = "rat option"

definition nplus :: "num \<Rightarrow> num \<Rightarrow> num" where
  "nplus a b = (case a of None \<Rightarrow> None
     | Some x \<Rightarrow> (case b of None \<Rightarrow> None | Some y \<Rightarrow> Some (x + y)))"

definition nminus :: "num \<Rightarrow> num \<Rightarrow> num" where
  "nminus a b = (case a of None \<Rightarrow> None
     | Some x \<Rightarrow> (case b of None \<Rightarrow> None | Some y \<Rightarrow> Some (x - y)))"

definition ntimes :: "num \<Rightarrow> num \<Rightarrow> num" where
  "ntimes a b = (case a of None \<Rightarrow> None
     | Some x \<Rightarrow> (case b of None \<Rightarrow> None | Some y \<Rightarrow> Some (x * y)))"

text \<open>Division by a non-zero constant (the only divisions in the code are by 60).\<close>

definition ndiv :: "num \<Rightarrow> rat \<Rightarrow> num" where
  "ndiv a c = (case a of None \<Rightarrow> None | Some x \<Rightarrow> Some (x / c))"

text \<open>Comparisons with \<open>NaN\<close> are false.\<close>

definition nle :: "num \<Rightarrow> num \<Rightarrow> bool" where
  "nle a b = (case a of None \<Rightarrow> False
     | Some x \<Rightarrow> (case b of None \<Rightarrow> False | Some y \<Rightarrow> x \<le> y))"

definition ngt :: "num \<Rightarrow> num \<Rightarrow> bool" where
  "ngt a b = (case a of None \<Rightarrow> False
     | Some x \<Rightarrow> (case b of None \<Rightarrow> False | Some y \<Rightarrow> y < x))"

text \<open>\<open>Math.round(x)\<close> is \<open>floor(x + 0.5)\<close>; \<open>Math.floor\<close>; truncation toward zero.\<close>

definition Math_round :: "num \<Rightarrow> num" where
  "Math_round a = (case a of None \<Rightarrow> None | Some x \<Rightarrow> Some (of_int \<lfloor>x + 1 / 2\<rfloor>))"




subsection \<open>Numbers and strings\<close>

definition is_digit :: "char \<Rightarrow> bool" where
  "is_digit c = (c \<in> set ''0123456789'')"

definition digit_val :: "char \<Rightarrow> nat" where
  "digit_val c = of_char c - 48"


text \<open>
  \<open>Number(s)\<close> on the strings the time inputs produce: the empty string is \<open>0\<close>, a string of
  decimal digits is its value, and text that is not a numeral is \<open>NaN\<close>. The other numeral
  forms of JavaScript (sign, fraction, exponent, hexadecimal, surrounding white space) are
  outside this model; every theorem below that parses text assumes digit strings.
\<close>

definition Number_js :: "string \<Rightarrow> num" where
  "Number_js s = (if s = [] then Some 0
     else if list_all is_digit s
       then Some (of_nat (foldl (\<lambda>a c. 10 * a + digit_val c) 0 s))
     else None)"

text \<open>\<open>s.split(c)\<close> for a one-character separator: never the empty array.\<close>

fun split_on :: "char \<Rightarrow> string \<Rightarrow> string list" where
  "split_on c [] = [[]]"
| "split_on c (x # xs) =
     (if x = c then [] # split_on c xs
      else (case split_on c xs of [] \<Rightarrow> [[x]] | y # ys \<Rightarrow> (x # y) # ys))"

text \<open>\<open>parts[i] ?? d\<close>: the default is taken only where the array has no such element.\<close>

definition nth_or :: "'a list \<Rightarrow> nat \<Rightarrow> 'a \<Rightarrow> 'a" where
  "nth_or xs i d = (if i < length xs then xs ! i else d)"





section \<open>The availability form's data model\<close>

datatype DayOfWeek = mon | tue | wed | thu | fri | sat | sun

record TimeWindow =
  startTime :: string
  endTime :: string

record DaySchedule =
  enabled :: bool
  timeWindows :: "TimeWindow list"

type_synonym WeekSchedule = "DayOfWeek \<Rightarrow> DaySchedule"

record BookingLimit =
  frequency :: num
  period :: num
  periodUnit :: string

datatype CodeableConcept = CodeableConcept string

record ServiceTypeOverride =
  so_serviceType :: CodeableConcept
  so_durationValue :: num
  so_durationUnit :: string
  so_weekSchedule :: WeekSchedule
  so_bufferBefore :: num
  so_bufferAfter :: num
  so_alignmentInterval :: num
  so_alignmentOffset :: num
  so_bookingLimits :: "BookingLimit list"
  so_timezone :: "string option"

record AvailabilityFormValues =
  durationValue :: num
  durationUnit :: string
  weekSchedule :: WeekSchedule
  bufferBefore :: num
  bufferAfter :: num
  alignmentInterval :: num
  alignmentOffset :: num
  bookingLimits :: "BookingLimit list"
  timezone :: string
  serviceTypeOverrides :: "ServiceTypeOverride list"

subsection \<open>FHIR extensions\<close>

text \<open>
  \<open>Timing.repeat\<close> with the fields the code reads and writes; \<open>dayOfWeek\<close> is the FHIR code
  type with the seven values of \<open>DayOfWeek\<close>.
\<close>

record Repeat =
  dayOfWeek :: "DayOfWeek list option"
  timeOfDay :: "string list option"
  duration :: "num option"
  durationUnit_r :: "string option"
  frequency_r :: "num option"
  period_r :: "num option"
  periodUnit_r :: "string option"

datatype Value =
    NoValue
  | ValueDuration num string
  | ValueTiming "Repeat option"
  | ValueCode string
  | ValueCodeableConcept CodeableConcept

datatype Extension = Extension (url: string) (val: Value) (extension: "Extension list")

definition SchedulingParametersURI :: string where
  "SchedulingParametersURI = ''https://medplum.com/fhir/StructureDefinition/SchedulingParameters''"

definition ORDERED_DAYS :: "DayOfWeek list" where
  "ORDERED_DAYS = [mon, tue, wed, thu, fri, sat, sun]"

definition DEFAULT_WINDOW :: TimeWindow where
  "DEFAULT_WINDOW = \<lparr>startTime = ''09:00'', endTime = ''17:00''\<rparr>"

section \<open>Time helpers\<close>

definition timeToMinutes :: "string \<Rightarrow> num" where
  "timeToMinutes time =
     (let parts = map Number_js (split_on CHR '':'' time)
      in nplus (ntimes (nth_or parts 0 (Some 0)) (Some 60)) (nth_or parts 1 (Some 0)))"



definition timeWindowDurationHours :: "TimeWindow \<Rightarrow> num" where
  "timeWindowDurationHours tw =
     (let s = timeToMinutes (startTime tw);
          e = timeToMinutes (endTime tw);
          diff = nminus e s;
          diff' = (if nle diff (Some 0) then nplus diff (Some (24 * 60)) else diff)
      in ndiv diff' 60)"

section \<open>Building the availability extensions\<close>

record WindowEntry =
  we_day :: DayOfWeek
  we_startTime :: string
  we_durationHours :: num

record Group =
  g_startTime :: string
  g_durationHours :: num
  g_days :: "DayOfWeek list"

record SuperGroup =
  sg_days :: "DayOfWeek list"
  sg_durationHours :: num
  sg_times :: "string list"

text \<open>
  The first loop of \<open>buildAvailabilityExtensions\<close>: one entry per window of every enabled
  day, the days taken in the order of the list \<open>days\<close> (the source iterates
  \<open>ORDERED_DAYS\<close>).
\<close>

definition window_entry :: "DayOfWeek \<Rightarrow> TimeWindow \<Rightarrow> WindowEntry" where
  "window_entry d tw =
     \<lparr>we_day = d,
      we_startTime = (if length (startTime tw) = 5 then startTime tw @ '':00'' else startTime tw),
      we_durationHours = timeWindowDurationHours tw\<rparr>"

definition day_entries :: "WeekSchedule \<Rightarrow> DayOfWeek \<Rightarrow> WindowEntry list" where
  "day_entries w d =
     (let ds = w d
      in if \<not> enabled ds then [] else map (window_entry d) (timeWindows ds))"

definition window_entries :: "DayOfWeek list \<Rightarrow> WeekSchedule \<Rightarrow> WindowEntry list" where
  "window_entries days w = concat (map (day_entries w) days)"

text \<open>
  The \<open>Map\<close> keys. The source builds the key text \<open>startTime|round(100 * hours)\<close>; the text
  after the last bar is a number's, which has no bar, so the text determines both parts and
  the key is modelled as the pair. A \<open>Map\<close> keeps insertion order and an update keeps the
  key's place: an association list with \<open>AList.update\<close>.
\<close>

definition group_key :: "WindowEntry \<Rightarrow> string \<times> num" where
  "group_key e = (we_startTime e, Math_round (ntimes (we_durationHours e) (Some 100)))"

definition add_to_groups ::
  "((string \<times> num) \<times> Group) list \<Rightarrow> WindowEntry \<Rightarrow> ((string \<times> num) \<times> Group) list" where
  "add_to_groups groups e =
     (let key = group_key e
      in case map_of groups key of
           Some existing \<Rightarrow>
             (if we_day e \<in> set (g_days existing) then groups
              else AList.update key (existing\<lparr>g_days := g_days existing @ [we_day e]\<rparr>) groups)
         | None \<Rightarrow>
             AList.update key \<lparr>g_startTime = we_startTime e,
               g_durationHours = we_durationHours e, g_days = [we_day e]\<rparr> groups)"

definition build_groups :: "WindowEntry list \<Rightarrow> ((string \<times> num) \<times> Group) list" where
  "build_groups entries = foldl add_to_groups [] entries"

text \<open>
  \<open>g.days.sort()\<close> orders the day codes as text. The second key is the sorted codes joined
  by commas, then a bar and the rounded duration; the codes hold no comma and no bar, so
  the key is modelled as the pair of the sorted list and the number.
\<close>

fun day_name :: "DayOfWeek \<Rightarrow> string" where
  "day_name mon = ''mon''"
| "day_name tue = ''tue''"
| "day_name wed = ''wed''"
| "day_name thu = ''thu''"
| "day_name fri = ''fri''"
| "day_name sat = ''sat''"
| "day_name sun = ''sun''"

definition sort_days :: "DayOfWeek list \<Rightarrow> DayOfWeek list" where
  "sort_days ds = sort_key day_name ds"

definition super_key :: "Group \<Rightarrow> DayOfWeek list \<times> num" where
  "super_key g = (sort_days (g_days g), Math_round (ntimes (g_durationHours g) (Some 100)))"

definition add_to_superGroups ::
  "((DayOfWeek list \<times> num) \<times> SuperGroup) list \<Rightarrow> Group
     \<Rightarrow> ((DayOfWeek list \<times> num) \<times> SuperGroup) list" where
  "add_to_superGroups superGroups g =
     (let superKey = super_key g
      in case map_of superGroups superKey of
           Some existing \<Rightarrow>
             AList.update superKey (existing\<lparr>sg_times := sg_times existing @ [g_startTime g]\<rparr>)
               superGroups
         | None \<Rightarrow>
             AList.update superKey \<lparr>sg_days = sort_days (g_days g),
               sg_durationHours = g_durationHours g, sg_times = [g_startTime g]\<rparr> superGroups)"

definition build_superGroups :: "Group list \<Rightarrow> ((DayOfWeek list \<times> num) \<times> SuperGroup) list" where
  "build_superGroups groups = foldl add_to_superGroups [] groups"

definition availability_repeat :: "SuperGroup \<Rightarrow> Repeat" where
  "availability_repeat sg =
     \<lparr>dayOfWeek = Some (sg_days sg), timeOfDay = Some (sg_times sg),
      duration = Some (sg_durationHours sg), durationUnit_r = Some ''h'',
      frequency_r = None, period_r = None, periodUnit_r = None\<rparr>"

definition availability_extension :: "SuperGroup \<Rightarrow> Extension" where
  "availability_extension sg =
     Extension ''availability'' (ValueTiming (Some (availability_repeat sg))) []"

definition availabilityExtensionsFrom :: "DayOfWeek list \<Rightarrow> WeekSchedule \<Rightarrow> Extension list" where
  "availabilityExtensionsFrom days w =
     map (availability_extension \<circ> snd)
       (build_superGroups (map snd (build_groups (window_entries days w))))"

definition buildAvailabilityExtensions :: "WeekSchedule \<Rightarrow> Extension list" where
  "buildAvailabilityExtensions w = availabilityExtensionsFrom ORDERED_DAYS w"

section \<open>Building the scheduling-parameter blocks\<close>

definition no_repeat :: Repeat where
  "no_repeat = \<lparr>dayOfWeek = None, timeOfDay = None, duration = None, durationUnit_r = None,
     frequency_r = None, period_r = None, periodUnit_r = None\<rparr>"

definition booking_limit_extensions :: "BookingLimit list \<Rightarrow> Extension list" where
  "booking_limit_extensions limits =
     concat (map (\<lambda>limit.
       if ngt (frequency limit) (Some 0)
       then [Extension ''bookingLimit''
               (ValueTiming (Some (no_repeat\<lparr>frequency_r := Some (frequency limit),
                  period_r := Some (period limit), periodUnit_r := Some (periodUnit limit)\<rparr>))) []]
       else []) limits)"

definition buffer_alignment_extensions :: "num \<Rightarrow> num \<Rightarrow> num \<Rightarrow> num \<Rightarrow> Extension list" where
  "buffer_alignment_extensions before after interval offset =
     (if ngt before (Some 0) then [Extension ''bufferBefore'' (ValueDuration before ''min'') []] else [])
     @ (if ngt after (Some 0) then [Extension ''bufferAfter'' (ValueDuration after ''min'') []] else [])
     @ (if ngt interval (Some 0)
        then Extension ''alignmentInterval'' (ValueDuration interval ''min'') []
             # (if ngt offset (Some 0)
                then [Extension ''alignmentOffset'' (ValueDuration offset ''min'') []] else [])
        else [])"

definition default_block :: "AvailabilityFormValues \<Rightarrow> Extension" where
  "default_block values =
     Extension SchedulingParametersURI NoValue
       ([Extension ''duration'' (ValueDuration (durationValue values) (durationUnit values)) []]
        @ buildAvailabilityExtensions (weekSchedule values)
        @ buffer_alignment_extensions (bufferBefore values) (bufferAfter values)
            (alignmentInterval values) (alignmentOffset values)
        @ booking_limit_extensions (bookingLimits values)
        @ (if timezone values \<noteq> [] then [Extension ''timezone'' (ValueCode (timezone values)) []]
           else []))"

definition override_block :: "ServiceTypeOverride \<Rightarrow> Extension" where
  "override_block override =
     Extension SchedulingParametersURI NoValue
       ([Extension ''serviceType'' (ValueCodeableConcept (so_serviceType override)) [],
         Extension ''duration''
           (ValueDuration (so_durationValue override) (so_durationUnit override)) []]
        @ buildAvailabilityExtensions (so_weekSchedule override)
        @ buffer_alignment_extensions (so_bufferBefore override) (so_bufferAfter override)
            (so_alignmentInterval override) (so_alignmentOffset override)
        @ booking_limit_extensions (so_bookingLimits override)
        @ (case so_timezone override of
             Some tz \<Rightarrow> (if tz \<noteq> [] then [Extension ''timezone'' (ValueCode tz) []] else [])
           | None \<Rightarrow> []))"

definition buildSchedulingParametersExtensions :: "AvailabilityFormValues \<Rightarrow> Extension list" where
  "buildSchedulingParametersExtensions values =
     default_block values # map override_block (serviceTypeOverrides values)"

definition has_sub :: "string \<Rightarrow> Extension \<Rightarrow> bool" where
  "has_sub u b = (u \<in> set (map url (extension b)))"

fun makeDefaultWeek :: WeekSchedule where
  "makeDefaultWeek mon = \<lparr>enabled = True, timeWindows = [DEFAULT_WINDOW]\<rparr>"
| "makeDefaultWeek tue = \<lparr>enabled = True, timeWindows = [DEFAULT_WINDOW]\<rparr>"
| "makeDefaultWeek wed = \<lparr>enabled = True, timeWindows = [DEFAULT_WINDOW]\<rparr>"
| "makeDefaultWeek thu = \<lparr>enabled = True, timeWindows = [DEFAULT_WINDOW]\<rparr>"
| "makeDefaultWeek fri = \<lparr>enabled = True, timeWindows = [DEFAULT_WINDOW]\<rparr>"
| "makeDefaultWeek sat = \<lparr>enabled = False, timeWindows = []\<rparr>"
| "makeDefaultWeek sun = \<lparr>enabled = False, timeWindows = []\<rparr>"

text \<open>Form values used as concrete inputs below.\<close>

definition example_override :: ServiceTypeOverride where
  "example_override =
     \<lparr>so_serviceType = CodeableConcept ''consult'', so_durationValue = Some 45,
      so_durationUnit = ''min'', so_weekSchedule = makeDefaultWeek,
      so_bufferBefore = Some 0, so_bufferAfter = Some 5,
      so_alignmentInterval = Some 0, so_alignmentOffset = Some 5,
      so_bookingLimits = [], so_timezone = None\<rparr>"

definition example_values :: "num \<Rightarrow> num \<Rightarrow> AvailabilityFormValues" where
  "example_values interval offset =
     \<lparr>durationValue = Some 30, durationUnit = ''min'', weekSchedule = makeDefaultWeek,
      bufferBefore = Some 0, bufferAfter = Some 0,
      alignmentInterval = interval, alignmentOffset = offset,
      bookingLimits = [], timezone = '''', serviceTypeOverrides = [example_override]\<rparr>"

section \<open>Dates\<close>

text \<open>
  A \<open>Date\<close> is modelled by its time value, the milliseconds since the epoch, as an integer
  (the range limit of the time value is not modelled). Local time is UTC plus a fixed
  offset \<open>tz\<close> in milliseconds: daylight-saving transitions are not modelled, so a local
  day is always 24 hours. A timestamp text (\<open>toISOString\<close>, FHIR \<open>instant\<close>) is
  represented by the instant it denotes.
\<close>

definition msPerDay :: int where
  "msPerDay = 86400000"





text \<open>\<open>d.setDate(d.getDate() + k)\<close> for a whole number \<open>k\<close> of days.\<close>

definition addDays :: "int \<Rightarrow> int \<Rightarrow> int" where
  "addDays t k = t + k * msPerDay"

text \<open>
  The day number of a calendar date (days since 1970-01-01, proleptic Gregorian) and the
  instant of a local date and time, as the \<open>Date\<close> constructor computes them; used to
  write the dates of the examples.
\<close>

definition days_from_civil :: "int \<Rightarrow> int \<Rightarrow> int \<Rightarrow> int" where
  "days_from_civil y m d =
     (let y' = (if m \<le> 2 then y - 1 else y);
          era = y' div 400;
          yoe = y' - era * 400;
          mp = (m + 9) mod 12;
          doy = (153 * mp + 2) div 5 + d - 1;
          doe = yoe * 365 + yoe div 4 - yoe div 100 + doy
      in era * 146097 + doe - 719468)"

definition local_datetime :: "int \<Rightarrow> int \<Rightarrow> int \<Rightarrow> int \<Rightarrow> int \<Rightarrow> int \<Rightarrow> int" where
  "local_datetime tz y m d hh mm =
     days_from_civil y m d * msPerDay + hh * 3600000 + mm * 60000 - tz"

section \<open>Recurring visits\<close>

record TimeRange =
  r_start :: int
  r_end :: int

text \<open>
  \<open>getRecurringSlots\<close>: the \<open>for\<close> loop from \<open>i\<close>, with the slots pushed so far left out.
  The occurrence count and the interval are whole numbers (the form's number input and
  select).
\<close>

function recurring_loop :: "int \<Rightarrow> int \<Rightarrow> int \<Rightarrow> int \<Rightarrow> int \<Rightarrow> TimeRange list" where
  "recurring_loop firstStart durationMs occurrences intervalWeeks i =
     (if i < occurrences
      then (let start = addDays firstStart (i * intervalWeeks * 7);
                end' = start + durationMs
            in \<lparr>r_start = start, r_end = end'\<rparr>
               # recurring_loop firstStart durationMs occurrences intervalWeeks (i + 1))
      else [])"
  by pat_completeness auto
termination
  by (relation "measure (\<lambda>(s, d, n, w, i). nat (n - i))") auto

definition getRecurringSlots :: "int \<Rightarrow> int \<Rightarrow> int \<Rightarrow> int \<Rightarrow> TimeRange list" where
  "getRecurringSlots firstStart firstEnd occurrences intervalWeeks =
     recurring_loop firstStart (firstEnd - firstStart) occurrences intervalWeeks 0"

section \<open>Slots, appointments and the conflict check\<close>

record Slot =
  slot_schedule :: string
  slot_status :: string
  slot_start :: int
  slot_end :: int
  slot_id :: "string option"
  slot_comment :: "string option"

record Appointment =
  apt_start :: "int option"
  apt_end :: "int option"
  apt_status :: string

text \<open>
  Modelled from the spec: \<open>rangesOverlap\<close> of \<open>utils/slots\<close> is imported by the sources and
  not part of them. The spec's conflict detector: true iff the half-open intervals
  intersect, \<open>aStart < bEnd && bStart < aEnd\<close>.
\<close>

definition rangesOverlap :: "int \<Rightarrow> int \<Rightarrow> int \<Rightarrow> int \<Rightarrow> bool" where
  "rangesOverlap aStart aEnd bStart bEnd = (aStart < bEnd \<and> bStart < aEnd)"

text \<open>
  The predicate the three call sites pass to \<open>find\<close> over the appointments: start and end
  present, status not cancelled, and the ranges overlap.
\<close>

definition overlaps_live_appointment :: "int \<Rightarrow> int \<Rightarrow> Appointment \<Rightarrow> bool" where
  "overlaps_live_appointment start end' apt =
     (case (apt_start apt, apt_end apt) of
        (Some s, Some e) \<Rightarrow> apt_status apt \<noteq> ''cancelled'' \<and> rangesOverlap start end' s e
      | _ \<Rightarrow> False)"

section \<open>Creating a visit\<close>

record VisitForm =
  vf_patient :: "string option"
  vf_planDefinitionData :: "string option"
  vf_encounterClass :: "string option"
  vf_start :: "int option"
  vf_end :: "int option"
  vf_isRecurring :: bool
  vf_recurrenceOccurrences :: int
  vf_recurrenceIntervalWeeks :: int

text \<open>
  One call of \<open>createEncounter\<close> (of \<open>utils/encounter\<close>, outside the sources): its arguments,
  the last being the options object's \<open>recurrenceSeriesId\<close>, absent when \<open>undefined\<close> is
  passed.
\<close>

record EncounterCall =
  ec_start :: int
  ec_end :: int
  ec_class :: string
  ec_patient :: string
  ec_plan :: string
  ec_recurrenceSeriesId :: "string option"

datatype SubmitOutcome = Notified string | Created "EncounterCall list"

text \<open>
  \<open>handleSubmit\<close> of \<open>CreateVisit\<close>: the early returns with their notification, then the
  calls of \<open>createEncounter\<close> in order, each taken to succeed. \<open>uuid\<close> is what \<open>uuidv4()\<close>
  returns.
\<close>

definition handleSubmit ::
  "string \<Rightarrow> VisitForm \<Rightarrow> Slot list \<Rightarrow> Appointment list \<Rightarrow> SubmitOutcome" where
  "handleSubmit uuid form blockedSlots existingAppointments =
     (case (vf_patient form, vf_planDefinitionData form, vf_encounterClass form,
            vf_start form, vf_end form) of
        (Some patient, Some plan, Some cls, Some start, Some end') \<Rightarrow>
          (case find (\<lambda>s. rangesOverlap start end' (slot_start s) (slot_end s)) blockedSlots of
             Some overlappingBlock \<Rightarrow>
               Notified ''This time is blocked. Choose another time or remove the block first.''
           | None \<Rightarrow>
               (case find (overlaps_live_appointment start end') existingAppointments of
                  Some overlappingAppointment \<Rightarrow>
                    Notified ''This time overlaps with an existing appointment. Choose another time.''
                | None \<Rightarrow>
                    (let slots = (if vf_isRecurring form
                                  then getRecurringSlots start end' (vf_recurrenceOccurrences form)
                                         (vf_recurrenceIntervalWeeks form)
                                  else [\<lparr>r_start = start, r_end = end'\<rparr>]);
                         recurrenceSeriesId =
                           (if vf_isRecurring form \<and> length slots > 1 then Some uuid else None);
                         options = (case recurrenceSeriesId of
                                      Some u \<Rightarrow> (if u \<noteq> [] then Some u else None)
                                    | None \<Rightarrow> None)
                     in Created (map (\<lambda>slot. \<lparr>ec_start = r_start slot, ec_end = r_end slot,
                                   ec_class = cls, ec_patient = patient, ec_plan = plan,
                                   ec_recurrenceSeriesId = options\<rparr>) slots))))
      | _ \<Rightarrow> Notified ''Please fill out required fields.'')"

definition example_visit :: "bool \<Rightarrow> int \<Rightarrow> VisitForm" where
  "example_visit recurring n =
     \<lparr>vf_patient = Some ''pat-1'', vf_planDefinitionData = Some ''plan-1'',
      vf_encounterClass = Some ''AMB'',
      vf_start = Some (local_datetime 0 2026 1 5 9 0),
      vf_end = Some (local_datetime 0 2026 1 5 10 0),
      vf_isRecurring = recurring, vf_recurrenceOccurrences = n,
      vf_recurrenceIntervalWeeks = 2\<rparr>"

fun created_calls :: "SubmitOutcome \<Rightarrow> EncounterCall list" where
  "created_calls (Created calls) = calls"
| "created_calls (Notified message) = []"

section \<open>Blocking time\<close>

record Schedule =
  sched_id :: "string option"
  sched_extension :: "Extension list"

text \<open>
  \<open>createReference\<close> of the core library (outside the sources) is represented by the
  reference text \<open>Schedule/<id>\<close> it carries.
\<close>

definition createReference :: "Schedule \<Rightarrow> string" where
  "createReference schedule =
     ''Schedule/'' @ (case sched_id schedule of Some i \<Rightarrow> i | None \<Rightarrow> ''undefined'')"

datatype error = RangeError

datatype BlockOutcome =
    NoAction
  | BlockDisabled string
  | BlockRejected string
  | BlockCreated Slot
  | BlockFailed error

text \<open>\<open>s.trim()\<close>: white space removed at both ends.\<close>

definition is_space :: "char \<Rightarrow> bool" where
  "is_space c = (c \<in> {CHR '' '', CHR 0x09, CHR 0x0A, CHR 0x0B, CHR 0x0C, CHR 0x0D})"

definition trim :: "string \<Rightarrow> string" where
  "trim s = rev (dropWhile is_space (rev (dropWhile is_space s)))"

text \<open>\<open>s || undefined\<close>: an empty text becomes absent.\<close>

definition or_undefined :: "string \<Rightarrow> string option" where
  "or_undefined s = (if s = [] then None else Some s)"

subsection \<open>From the calendar\<close>

text \<open>
  \<open>handleBlockFromCalendar\<close> of the schedule page, on the page's state: the pending
  selection, the schedule, the appointments fetched for the visible range and the reason
  typed. The store is taken to accept the \<open>createResource\<close> call.
\<close>

definition handleBlockFromCalendar ::
  "TimeRange option \<Rightarrow> Schedule option \<Rightarrow> Appointment list option \<Rightarrow> string \<Rightarrow> BlockOutcome" where
  "handleBlockFromCalendar pendingSlotInfo schedule appointments blockReason =
     (case (pendingSlotInfo, schedule) of
        (Some pending, Some sched) \<Rightarrow>
          (let blockStart = r_start pending;
               blockEnd = r_end pending
           in case find (overlaps_live_appointment blockStart blockEnd)
                     (case appointments of Some as \<Rightarrow> as | None \<Rightarrow> []) of
                Some overlappingAppointment \<Rightarrow>
                  BlockRejected
                    ''You have an appointment during this time. Move or cancel it first to block.''
              | None \<Rightarrow>
                  BlockCreated \<lparr>slot_schedule = createReference sched,
                    slot_status = ''busy-unavailable'',
                    slot_start = r_start pending, slot_end = r_end pending,
                    slot_id = None, slot_comment = or_undefined (trim blockReason)\<rparr>)
      | _ \<Rightarrow> NoAction)"

subsection \<open>From the availability dialog\<close>

record BlockedTime =
  bt_allDay :: bool
  bt_startDate :: string
  bt_endDate :: string
  bt_startTime :: string
  bt_endTime :: string
  bt_comment :: string

text \<open>
  The validation computed for each row of the block list. Texts are compared as
  JavaScript compares strings, by code units in dictionary order.
\<close>

definition hasDates :: "BlockedTime \<Rightarrow> bool" where
  "hasDates block = (bt_startDate block \<noteq> [] \<and> bt_endDate block \<noteq> [])"

definition dateOrderOk :: "BlockedTime \<Rightarrow> bool" where
  "dateOrderOk block = (hasDates block \<and> bt_endDate block \<ge> bt_startDate block)"

definition sameDay :: "BlockedTime \<Rightarrow> bool" where
  "sameDay block = (bt_startDate block = bt_endDate block)"

definition timeOrderOk :: "BlockedTime \<Rightarrow> bool" where
  "timeOrderOk block =
     (bt_allDay block \<or> bt_startTime block = [] \<or> bt_endTime block = [] \<or> \<not> sameDay block
      \<or> bt_endTime block > bt_startTime block)"

definition isValid :: "BlockedTime \<Rightarrow> bool" where
  "isValid block =
     (if bt_allDay block then dateOrderOk block
      else dateOrderOk block \<and> bt_startTime block \<noteq> [] \<and> bt_endTime block \<noteq> []
           \<and> timeOrderOk block)"

definition validationHint :: "BlockedTime \<Rightarrow> string" where
  "validationHint block =
     (if hasDates block \<and> \<not> dateOrderOk block then ''End date must be on or after start date''
      else if \<not> bt_allDay block \<and> sameDay block \<and> bt_startTime block \<noteq> []
              \<and> bt_endTime block \<noteq> [] \<and> \<not> timeOrderOk block
        then ''End time must be after start time''
      else [])"

text \<open>
  \<open>createBlockSlots\<close>. \<open>mkDate\<close> is the \<open>Date\<close> constructor on a local date-time text,
  \<open>None\<close> for an invalid date, on which \<open>toISOString\<close> throws a \<open>RangeError\<close>. The result is
  the \<open>Slot\<close> passed to \<open>createResource\<close>, which the store is taken to accept.
\<close>

definition createBlockSlots :: "(string \<Rightarrow> int option) \<Rightarrow> Schedule \<Rightarrow> BlockedTime \<Rightarrow> error + Slot" where
  "createBlockSlots mkDate schedule block =
     (let scheduleRef = createReference schedule;
          comment = or_undefined (bt_comment block);
          start = (if bt_allDay block then mkDate (bt_startDate block @ ''T00:00:00'')
                   else mkDate (bt_startDate block @ ''T'' @ bt_startTime block @ '':00''));
          end' = (if bt_allDay block then mkDate (bt_endDate block @ ''T23:59:59'')
                  else mkDate (bt_endDate block @ ''T'' @ bt_endTime block @ '':00''))
      in case start of
           None \<Rightarrow> Inl RangeError
         | Some s \<Rightarrow>
             (case end' of
                None \<Rightarrow> Inl RangeError
              | Some e \<Rightarrow>
                  Inr \<lparr>slot_schedule = scheduleRef, slot_status = ''busy-unavailable'',
                       slot_start = s, slot_end = e, slot_id = None, slot_comment = comment\<rparr>))"

text \<open>\<open>handleBlockTime\<close>: the \<open>try\<close> around \<open>createBlockSlots\<close>.\<close>

definition handleBlockTime :: "(string \<Rightarrow> int option) \<Rightarrow> Schedule \<Rightarrow> BlockedTime \<Rightarrow> BlockOutcome" where
  "handleBlockTime mkDate schedule block =
     (case createBlockSlots mkDate schedule block of
        Inr slot \<Rightarrow> BlockCreated slot
      | Inl e \<Rightarrow> BlockFailed e)"

text \<open>
  A click on the row's Block button: the button is disabled while the row is not valid
  (the hint is shown beside it) and its handler is \<open>handleBlockTime\<close>.
\<close>

definition clickBlock :: "(string \<Rightarrow> int option) \<Rightarrow> Schedule \<Rightarrow> BlockedTime \<Rightarrow> BlockOutcome" where
  "clickBlock mkDate schedule block =
     (if isValid block then handleBlockTime mkDate schedule block
      else BlockDisabled (validationHint block))"

text \<open>A well-formed time of day \<open>HH:MM\<close>, as a time input gives it.\<close>

fun wf_time :: "string \<Rightarrow> bool" where
  "wf_time [a, b, c, d, e] =
     (is_digit a \<and> is_digit b \<and> c = CHR '':'' \<and> is_digit d \<and> is_digit e
      \<and> 10 * digit_val a + digit_val b < 24 \<and> 10 * digit_val d + digit_val e < 60)"
| "wf_time _ = False"

definition minutes_of :: "string \<Rightarrow> nat" where
  "minutes_of s = 60 * (10 * digit_val (s ! 0) + digit_val (s ! 1))
                  + (10 * digit_val (s ! 3) + digit_val (s ! 4))"

text \<open>Inputs for the examples.\<close>

definition example_schedule :: Schedule where
  "example_schedule = \<lparr>sched_id = Some ''sch-1'', sched_extension = []\<rparr>"

definition example_block :: "string \<Rightarrow> string \<Rightarrow> string \<Rightarrow> string \<Rightarrow> BlockedTime" where
  "example_block startDate endDate start end' =
     \<lparr>bt_allDay = False, bt_startDate = startDate, bt_endDate = endDate,
      bt_startTime = start, bt_endTime = end', bt_comment = ''''\<rparr>"

definition example_dates :: "string \<Rightarrow> int option" where
  "example_dates = map_of
     [(''2026-03-10T14:00:00'', local_datetime 0 2026 3 10 14 0),
      (''2026-03-10T15:00:00'', local_datetime 0 2026 3 10 15 0),
      (''2026-03-10T20:00:00'', local_datetime 0 2026 3 10 20 0),
      (''2026-03-11T05:00:00'', local_datetime 0 2026 3 11 5 0)]"

definition example_appointment :: Appointment where
  "example_appointment =
     \<lparr>apt_start = Some (local_datetime 0 2026 3 10 14 30),
      apt_end = Some (local_datetime 0 2026 3 10 15 30), apt_status = ''booked''\<rparr>"

section \<open>Generating the displayed availability slots\<close>






definition repeat_of :: "Extension \<Rightarrow> Repeat option" where
  "repeat_of avail = (case val avail of ValueTiming r \<Rightarrow> r | _ \<Rightarrow> None)"










subsection \<open>What the generator is to return\<close>









section \<open>Reading the availability extensions\<close>






subsection \<open>Round trip and comparison of entries\<close>





definition entry_content ::
  "Extension \<Rightarrow> string \<times> (DayOfWeek list option \<times> string set option \<times> num option \<times> string option) option" where
  "entry_content ext =
     (url ext,
      map_option (\<lambda>r. (dayOfWeek r, map_option set (timeOfDay r), duration r, durationUnit_r r))
        (repeat_of ext))"









section \<open>Verified properties\<close>

subsection \<open>Alignment entries of the encoded blocks\<close>

lemma url_availability:
  "set (map url (buildAvailabilityExtensions w)) \<subseteq> {''availability''}"
  by (auto simp: buildAvailabilityExtensions_def availabilityExtensionsFrom_def
      availability_extension_def)

lemma url_booking: "set (map url (booking_limit_extensions ls)) \<subseteq> {''bookingLimit''}"
  by (induction ls) (auto simp: booking_limit_extensions_def)

lemma url_buffer_offset:
  "''alignmentOffset'' \<in> set (map url (buffer_alignment_extensions b a i off))
     \<longleftrightarrow> ngt i (Some 0) \<and> ngt off (Some 0)"
  by (cases "ngt b (Some 0)"; cases "ngt a (Some 0)"; cases "ngt i (Some 0)";
      cases "ngt off (Some 0)"; simp add: buffer_alignment_extensions_def)

lemma url_buffer_interval:
  "''alignmentInterval'' \<in> set (map url (buffer_alignment_extensions b a i off))
     \<longleftrightarrow> ngt i (Some 0)"
  by (cases "ngt b (Some 0)"; cases "ngt a (Some 0)"; cases "ngt i (Some 0)";
      cases "ngt off (Some 0)"; simp add: buffer_alignment_extensions_def)

lemma not_in_availability:
  "u \<noteq> ''availability'' \<Longrightarrow> u \<notin> set (map url (buildAvailabilityExtensions w))"
  using url_availability [of w] by auto

lemma not_in_booking:
  "u \<noteq> ''bookingLimit'' \<Longrightarrow> u \<notin> set (map url (booking_limit_extensions ls))"
  using url_booking [of ls] by auto

lemma default_block_offset:
  "has_sub ''alignmentOffset'' (default_block v)
     \<longleftrightarrow> ngt (alignmentInterval v) (Some 0) \<and> ngt (alignmentOffset v) (Some 0)"
  using not_in_availability [of "''alignmentOffset''" "weekSchedule v"]
    not_in_booking [of "''alignmentOffset''" "bookingLimits v"]
    url_buffer_offset [of "bufferBefore v" "bufferAfter v" "alignmentInterval v" "alignmentOffset v"]
  by (auto simp: has_sub_def default_block_def)

lemma default_block_interval:
  "has_sub ''alignmentInterval'' (default_block v) \<longleftrightarrow> ngt (alignmentInterval v) (Some 0)"
  using not_in_availability [of "''alignmentInterval''" "weekSchedule v"]
    not_in_booking [of "''alignmentInterval''" "bookingLimits v"]
    url_buffer_interval [of "bufferBefore v" "bufferAfter v" "alignmentInterval v" "alignmentOffset v"]
  by (auto simp: has_sub_def default_block_def)

lemma override_block_offset:
  "has_sub ''alignmentOffset'' (override_block v)
     \<longleftrightarrow> ngt (so_alignmentInterval v) (Some 0) \<and> ngt (so_alignmentOffset v) (Some 0)"
  using not_in_availability [of "''alignmentOffset''" "so_weekSchedule v"]
    not_in_booking [of "''alignmentOffset''" "so_bookingLimits v"]
    url_buffer_offset [of "so_bufferBefore v" "so_bufferAfter v" "so_alignmentInterval v" "so_alignmentOffset v"]
  by (auto simp: has_sub_def override_block_def split: option.splits)

lemma override_block_interval:
  "has_sub ''alignmentInterval'' (override_block v) \<longleftrightarrow> ngt (so_alignmentInterval v) (Some 0)"
  using not_in_availability [of "''alignmentInterval''" "so_weekSchedule v"]
    not_in_booking [of "''alignmentInterval''" "so_bookingLimits v"]
    url_buffer_interval [of "so_bufferBefore v" "so_bufferAfter v" "so_alignmentInterval v" "so_alignmentOffset v"]
  by (auto simp: has_sub_def override_block_def split: option.splits)

text \<open>
  Claim C10. In every block the encoder emits, the default one and each service override's,
  an \<open>alignmentOffset\<close> entry is present only if an \<open>alignmentInterval\<close> entry is; and
  where the alignment interval is not positive (zero included) the block has no offset
  entry, whatever the offset's value.
\<close>

theorem alignment_offset_needs_interval:
  "(\<forall>b \<in> set (buildSchedulingParametersExtensions v).
       has_sub ''alignmentOffset'' b \<longrightarrow> has_sub ''alignmentInterval'' b)
   \<and> (\<not> ngt (alignmentInterval v) (Some 0)
        \<longrightarrow> \<not> has_sub ''alignmentOffset'' (buildSchedulingParametersExtensions v ! 0))
   \<and> (\<forall>i < length (serviceTypeOverrides v).
        \<not> ngt (so_alignmentInterval (serviceTypeOverrides v ! i)) (Some 0)
        \<longrightarrow> \<not> has_sub ''alignmentOffset'' (buildSchedulingParametersExtensions v ! Suc i))"
  by (auto simp: buildSchedulingParametersExtensions_def default_block_offset
      default_block_interval override_block_offset override_block_interval)

theorem alignment_offset_needs_interval_witness:
  "ngt (alignmentOffset (example_values (Some 0) (Some 15))) (Some 0)
   \<and> \<not> ngt (alignmentInterval (example_values (Some 0) (Some 15))) (Some 0)
   \<and> \<not> has_sub ''alignmentOffset''
         (buildSchedulingParametersExtensions (example_values (Some 0) (Some 15)) ! 0)
   \<and> \<not> has_sub ''alignmentOffset''
         (buildSchedulingParametersExtensions (example_values (Some 0) (Some 15)) ! Suc 0)
   \<and> has_sub ''alignmentOffset''
         (buildSchedulingParametersExtensions (example_values (Some 15) (Some 5)) ! 0)
   \<and> has_sub ''alignmentInterval''
         (buildSchedulingParametersExtensions (example_values (Some 15) (Some 5)) ! 0)"
proof -
  let ?v = "example_values (Some 0) (Some 15)"
  let ?u = "example_values (Some 15) (Some 5)"
  have off: "ngt (alignmentOffset ?v) (Some 0)"
    by (simp add: example_values_def ngt_def)
  have int: "\<not> ngt (alignmentInterval ?v) (Some 0)"
    by (simp add: example_values_def ngt_def)
  have len: "0 < length (serviceTypeOverrides ?v)"
    by (simp add: example_values_def)
  have ov: "\<not> ngt (so_alignmentInterval (serviceTypeOverrides ?v ! 0)) (Some 0)"
    by (simp add: example_values_def example_override_def ngt_def)
  have mem: "buildSchedulingParametersExtensions ?u ! 0
      \<in> set (buildSchedulingParametersExtensions ?u)"
    by (simp add: buildSchedulingParametersExtensions_def)
  have has: "has_sub ''alignmentOffset'' (buildSchedulingParametersExtensions ?u ! 0)"
    by (simp add: buildSchedulingParametersExtensions_def default_block_offset
        example_values_def ngt_def)
  from alignment_offset_needs_interval [of ?v] int
  have a: "\<not> has_sub ''alignmentOffset'' (buildSchedulingParametersExtensions ?v ! 0)"
    by blast
  from alignment_offset_needs_interval [of ?v] len ov
  have b: "\<not> has_sub ''alignmentOffset'' (buildSchedulingParametersExtensions ?v ! Suc 0)"
    by blast
  from alignment_offset_needs_interval [of ?u] mem has
  have c: "has_sub ''alignmentInterval'' (buildSchedulingParametersExtensions ?u ! 0)"
    by blast
  from off int a b c has show ?thesis
    by blast
qed

subsection \<open>Five weekdays sharing one window\<close>

lemma duration_default_window: "timeWindowDurationHours DEFAULT_WINDOW = Some 8"
  by code_simp

lemma five_weekdays_groups:
  "map (availability_extension \<circ> snd)
     (build_superGroups (map snd (build_groups
        (map (\<lambda>d. \<lparr>we_day = d, we_startTime = ''09:00:00'', we_durationHours = Some 8\<rparr>)
           [mon, tue, wed, thu, fri]))))
   = [Extension ''availability''
        (ValueTiming (Some \<lparr>dayOfWeek = Some [fri, mon, thu, tue, wed],
           timeOfDay = Some [''09:00:00''], duration = Some (Some 8),
           durationUnit_r = Some ''h'', frequency_r = None, period_r = None,
           periodUnit_r = None\<rparr>)) []]"
  by code_simp

text \<open>
  Claim C4. When Monday to Friday are enabled with the single window 09:00 to 17:00 and
  Saturday and Sunday are disabled, the encoder emits exactly one availability entry: its
  days are the five weekdays (in the text order the code sorts them into), its one start
  time is 09:00:00 and its duration is 8 hours.
\<close>

theorem five_weekdays_one_entry:
  assumes "w mon = \<lparr>enabled = True, timeWindows = [\<lparr>startTime = ''09:00'', endTime = ''17:00''\<rparr>]\<rparr>"
    and "w tue = \<lparr>enabled = True, timeWindows = [\<lparr>startTime = ''09:00'', endTime = ''17:00''\<rparr>]\<rparr>"
    and "w wed = \<lparr>enabled = True, timeWindows = [\<lparr>startTime = ''09:00'', endTime = ''17:00''\<rparr>]\<rparr>"
    and "w thu = \<lparr>enabled = True, timeWindows = [\<lparr>startTime = ''09:00'', endTime = ''17:00''\<rparr>]\<rparr>"
    and "w fri = \<lparr>enabled = True, timeWindows = [\<lparr>startTime = ''09:00'', endTime = ''17:00''\<rparr>]\<rparr>"
    and "\<not> enabled (w sat)" and "\<not> enabled (w sun)"
  shows "buildAvailabilityExtensions w
    = [Extension ''availability''
        (ValueTiming (Some \<lparr>dayOfWeek = Some [fri, mon, thu, tue, wed],
           timeOfDay = Some [''09:00:00''], duration = Some (Some 8),
           durationUnit_r = Some ''h'', frequency_r = None, period_r = None,
           periodUnit_r = None\<rparr>)) []]"
proof -
  have dw: "\<lparr>startTime = ''09:00'', endTime = ''17:00''\<rparr> = DEFAULT_WINDOW"
    by (simp add: DEFAULT_WINDOW_def)
  have len: "length (startTime DEFAULT_WINDOW) = 5"
    by (simp add: DEFAULT_WINDOW_def)
  have st: "startTime DEFAULT_WINDOW @ '':00'' = ''09:00:00''"
    by (simp add: DEFAULT_WINDOW_def)
  have "window_entries ORDERED_DAYS w
    = map (\<lambda>d. \<lparr>we_day = d, we_startTime = ''09:00:00'', we_durationHours = Some 8\<rparr>)
        [mon, tue, wed, thu, fri]"
    using assms unfolding dw
    by (simp add: window_entries_def ORDERED_DAYS_def day_entries_def window_entry_def len st
        duration_default_window)
  then show ?thesis
    by (simp only: buildAvailabilityExtensions_def availabilityExtensionsFrom_def
        five_weekdays_groups)
qed

theorem five_weekdays_one_entry_witness:
  "makeDefaultWeek mon = \<lparr>enabled = True, timeWindows = [\<lparr>startTime = ''09:00'', endTime = ''17:00''\<rparr>]\<rparr>
   \<and> makeDefaultWeek fri = \<lparr>enabled = True, timeWindows = [\<lparr>startTime = ''09:00'', endTime = ''17:00''\<rparr>]\<rparr>
   \<and> \<not> enabled (makeDefaultWeek sat) \<and> \<not> enabled (makeDefaultWeek sun)
   \<and> length (buildAvailabilityExtensions makeDefaultWeek) = 1"
proof -
  have h: "makeDefaultWeek mon = \<lparr>enabled = True, timeWindows = [\<lparr>startTime = ''09:00'', endTime = ''17:00''\<rparr>]\<rparr>"
    "makeDefaultWeek tue = \<lparr>enabled = True, timeWindows = [\<lparr>startTime = ''09:00'', endTime = ''17:00''\<rparr>]\<rparr>"
    "makeDefaultWeek wed = \<lparr>enabled = True, timeWindows = [\<lparr>startTime = ''09:00'', endTime = ''17:00''\<rparr>]\<rparr>"
    "makeDefaultWeek thu = \<lparr>enabled = True, timeWindows = [\<lparr>startTime = ''09:00'', endTime = ''17:00''\<rparr>]\<rparr>"
    "makeDefaultWeek fri = \<lparr>enabled = True, timeWindows = [\<lparr>startTime = ''09:00'', endTime = ''17:00''\<rparr>]\<rparr>"
    by (simp_all add: DEFAULT_WINDOW_def)
  have s: "\<not> enabled (makeDefaultWeek sat)" "\<not> enabled (makeDefaultWeek sun)"
    by simp_all
  show ?thesis
    using h s five_weekdays_one_entry [OF h s] by simp
qed

subsection \<open>The recurring series\<close>

declare recurring_loop.simps [simp del]

lemma recurring_loop_length:
  "length (recurring_loop s d n w i) = nat (n - i)"
proof (induction s d n w i rule: recurring_loop.induct)
  case (1 s d n w i)
  show ?case
  proof (cases "i < n")
    case True
    with 1 show ?thesis
      by (subst recurring_loop.simps)
        (simp add: Let_def nat_diff_distrib Suc_nat_eq_nat_zadd1 algebra_simps)
  next
    case False
    then show ?thesis by (subst recurring_loop.simps) simp
  qed
qed





subsection \<open>The series identifier of created visits\<close>

lemma handleSubmit_Created:
  assumes "handleSubmit uuid form bs apts = Created calls"
  shows "\<exists>patient plan cls start end'.
     vf_patient form = Some patient \<and> vf_planDefinitionData form = Some plan
     \<and> vf_encounterClass form = Some cls \<and> vf_start form = Some start
     \<and> vf_end form = Some end'
     \<and> calls = map (\<lambda>slot. \<lparr>ec_start = r_start slot, ec_end = r_end slot,
                  ec_class = cls, ec_patient = patient, ec_plan = plan,
                  ec_recurrenceSeriesId =
                    (if vf_isRecurring form \<and> 1 < vf_recurrenceOccurrences form \<and> uuid \<noteq> []
                     then Some uuid else None)\<rparr>)
          (if vf_isRecurring form
           then getRecurringSlots start end' (vf_recurrenceOccurrences form)
                  (vf_recurrenceIntervalWeeks form)
           else [\<lparr>r_start = start, r_end = end'\<rparr>])"
  using assms
  by (auto simp: handleSubmit_def Let_def getRecurringSlots_def recurring_loop_length
      split: option.splits if_splits)

lemma handleSubmit_two_occurrences:
  "handleSubmit ''series-1'' (example_visit True 2) [] []
   = Created [\<lparr>ec_start = local_datetime 0 2026 1 5 9 0, ec_end = local_datetime 0 2026 1 5 10 0,
                ec_class = ''AMB'', ec_patient = ''pat-1'', ec_plan = ''plan-1'',
                ec_recurrenceSeriesId = Some ''series-1''\<rparr>,
              \<lparr>ec_start = local_datetime 0 2026 1 19 9 0, ec_end = local_datetime 0 2026 1 19 10 0,
                ec_class = ''AMB'', ec_patient = ''pat-1'', ec_plan = ''plan-1'',
                ec_recurrenceSeriesId = Some ''series-1''\<rparr>]"
  by (simp add: handleSubmit_def example_visit_def getRecurringSlots_def recurring_loop.simps
      local_datetime_def days_from_civil_def addDays_def msPerDay_def Let_def)

lemma handleSubmit_single:
  "handleSubmit ''series-1'' (example_visit False 4) [] []
   = Created [\<lparr>ec_start = local_datetime 0 2026 1 5 9 0, ec_end = local_datetime 0 2026 1 5 10 0,
                ec_class = ''AMB'', ec_patient = ''pat-1'', ec_plan = ''plan-1'',
                ec_recurrenceSeriesId = None\<rparr>]"
  by (simp add: handleSubmit_def example_visit_def Let_def)

text \<open>
  Claim C2, as the code has it. When a recurring series of \<open>n \<ge> 2\<close> occurrences is created,
  every occurrence, the first included, is created with the one generated series
  identifier; when a single occurrence is created (recurrence off, or \<open>n = 1\<close>) no
  occurrence carries a series identifier.
\<close>

theorem series_id_on_every_occurrence:
  assumes "handleSubmit uuid form bs apts = Created calls" and "uuid \<noteq> []"
  shows "(vf_isRecurring form \<and> 2 \<le> vf_recurrenceOccurrences form
            \<longrightarrow> length calls = nat (vf_recurrenceOccurrences form)
                \<and> (\<forall>c \<in> set calls. ec_recurrenceSeriesId c = Some uuid))
       \<and> (\<not> vf_isRecurring form \<or> vf_recurrenceOccurrences form = 1
            \<longrightarrow> length calls = 1 \<and> (\<forall>c \<in> set calls. ec_recurrenceSeriesId c = None))"
  using handleSubmit_Created [OF assms(1)] assms(2)
  by (auto simp: getRecurringSlots_def recurring_loop_length)

theorem series_id_on_every_occurrence_witness:
  "vf_isRecurring (example_visit True 2) \<and> 2 \<le> vf_recurrenceOccurrences (example_visit True 2)
   \<and> length (created_calls (handleSubmit ''series-1'' (example_visit True 2) [] [])) = 2
   \<and> \<not> vf_isRecurring (example_visit False 4)
   \<and> length (created_calls (handleSubmit ''series-1'' (example_visit False 4) [] [])) = 1"
proof -
  have u: "''series-1'' \<noteq> []" by simp
  have r: "vf_isRecurring (example_visit True 2)"
    "2 \<le> vf_recurrenceOccurrences (example_visit True 2)"
    "\<not> vf_isRecurring (example_visit False 4)"
    by (simp_all add: example_visit_def)
  from series_id_on_every_occurrence [OF handleSubmit_two_occurrences u] r
  have a: "length (created_calls (handleSubmit ''series-1'' (example_visit True 2) [] []))
      = nat (vf_recurrenceOccurrences (example_visit True 2))"
    by (simp add: handleSubmit_two_occurrences)
  from series_id_on_every_occurrence [OF handleSubmit_single u] r
  have b: "length (created_calls (handleSubmit ''series-1'' (example_visit False 4) [] [])) = 1"
    by (simp add: handleSubmit_single)
  from a b r show ?thesis
    by (simp add: example_visit_def)
qed

text \<open>
  The claim as stated fails: of a series of two, the first occurrence carries the series
  identifier as well.
\<close>

theorem first_occurrence_tagged_counterexample:
  "map ec_recurrenceSeriesId
     (created_calls (handleSubmit ''series-1'' (example_visit True 2) [] []))
   = [Some ''series-1'', Some ''series-1'']"
  by (simp add: handleSubmit_two_occurrences)

subsection \<open>Times of day as text\<close>

lemma digit_less:
  "is_digit a \<Longrightarrow> is_digit b \<Longrightarrow> (a < b) = (digit_val a < digit_val b)"
  by (auto simp: is_digit_def digit_val_def less_char_def)

lemma digit_eq:
  "is_digit a \<Longrightarrow> is_digit b \<Longrightarrow> (a = b) = (digit_val a = digit_val b)"
  by (auto simp: is_digit_def digit_val_def)

lemma digit_val_lt10: "is_digit a \<Longrightarrow> digit_val a < 10"
  by (auto simp: is_digit_def digit_val_def)

lemma wf_time_elim:
  assumes "wf_time s"
  obtains a b d e where "s = [a, b, CHR '':'', d, e]"
    "is_digit a" "is_digit b" "is_digit d" "is_digit e"
    "10 * digit_val a + digit_val b < 24" "10 * digit_val d + digit_val e < 60"
  using assms by (cases s rule: wf_time.cases) auto

text \<open>On well-formed times the text order is the order of the minutes of the day.\<close>

lemma wf_time_less:
  assumes "wf_time s" and "wf_time t"
  shows "(s < t) = (minutes_of s < minutes_of t)"
proof -
  from assms(1) obtain a b d e where s: "s = [a, b, CHR '':'', d, e]"
    and ds: "is_digit a" "is_digit b" "is_digit d" "is_digit e"
    and bs: "10 * digit_val d + digit_val e < 60"
    by (rule wf_time_elim)
  from assms(2) obtain a' b' d' e' where t: "t = [a', b', CHR '':'', d', e']"
    and dt: "is_digit a'" "is_digit b'" "is_digit d'" "is_digit e'"
    and bt: "10 * digit_val d' + digit_val e' < 60"
    by (rule wf_time_elim)
  note lt = digit_val_lt10 [OF ds(1)] digit_val_lt10 [OF ds(2)] digit_val_lt10 [OF ds(3)]
    digit_val_lt10 [OF ds(4)] digit_val_lt10 [OF dt(1)] digit_val_lt10 [OF dt(2)]
    digit_val_lt10 [OF dt(3)] digit_val_lt10 [OF dt(4)]
  have "(s < t) = (digit_val a < digit_val a' \<or> digit_val a = digit_val a' \<and>
      (digit_val b < digit_val b' \<or> digit_val b = digit_val b' \<and>
      (digit_val d < digit_val d' \<or> digit_val d = digit_val d' \<and> digit_val e < digit_val e')))"
    unfolding s t
    by (simp add: digit_less ds dt digit_eq)
  also have "\<dots> = (minutes_of s < minutes_of t)"
    unfolding s t minutes_of_def using lt bs bt by auto
  finally show ?thesis .
qed

lemma wf_time_nonempty: "wf_time s \<Longrightarrow> s \<noteq> []"
  by auto

subsection \<open>Validation of a blocked-time row\<close>

lemma same_day_hint:
  assumes "\<not> bt_allDay b" and "sameDay b"
    and "wf_time (bt_startTime b)" and "wf_time (bt_endTime b)"
    and "minutes_of (bt_endTime b) \<le> minutes_of (bt_startTime b)"
  shows "\<not> isValid b" and "validationHint b = ''End time must be after start time''"
proof -
  have ne: "bt_startTime b \<noteq> []" "bt_endTime b \<noteq> []"
    using assms(3,4) by (auto dest: wf_time_nonempty)
  have "\<not> bt_startTime b < bt_endTime b"
    using assms(5) by (simp add: wf_time_less [OF assms(3,4)])
  then have t: "\<not> timeOrderOk b"
    using assms(1,2) ne by (simp add: timeOrderOk_def)
  then show "\<not> isValid b"
    using assms(1) by (simp add: isValid_def)
  have "hasDates b \<longrightarrow> dateOrderOk b"
    using assms(2) by (simp add: dateOrderOk_def sameDay_def)
  then show "validationHint b = ''End time must be after start time''"
    using t assms(1,2) ne by (auto simp: validationHint_def)
qed

text \<open>
  Claim C8. A same-day block that is not all-day and whose end time is not after its start
  time is not valid: its Block button is disabled with the reason shown, so no Slot is
  created. A block whose start and end dates differ is not rejected by the time-order
  rule, whatever its times (an overnight range included): with its dates in order and
  both times set, the click goes on to create the Slot.
\<close>

theorem same_day_time_order_rejected:
  "(\<not> bt_allDay b \<and> sameDay b \<and> wf_time (bt_startTime b) \<and> wf_time (bt_endTime b)
      \<and> minutes_of (bt_endTime b) \<le> minutes_of (bt_startTime b)
     \<longrightarrow> clickBlock mkDate sched b = BlockDisabled ''End time must be after start time'')
   \<and> (\<not> sameDay b
     \<longrightarrow> timeOrderOk b \<and> validationHint b \<noteq> ''End time must be after start time''
        \<and> (\<not> bt_allDay b \<and> dateOrderOk b \<and> bt_startTime b \<noteq> [] \<and> bt_endTime b \<noteq> []
             \<longrightarrow> clickBlock mkDate sched b = handleBlockTime mkDate sched b))"
proof (intro conjI impI)
  assume "\<not> bt_allDay b \<and> sameDay b \<and> wf_time (bt_startTime b) \<and> wf_time (bt_endTime b)
      \<and> minutes_of (bt_endTime b) \<le> minutes_of (bt_startTime b)"
  then show "clickBlock mkDate sched b = BlockDisabled ''End time must be after start time''"
    using same_day_hint [of b] by (simp add: clickBlock_def)
next
  assume "\<not> sameDay b"
  then show "timeOrderOk b" by (simp add: timeOrderOk_def)
next
  assume "\<not> sameDay b"
  then show "validationHint b \<noteq> ''End time must be after start time''"
    by (simp add: validationHint_def)
next
  assume "\<not> sameDay b"
    and "\<not> bt_allDay b \<and> dateOrderOk b \<and> bt_startTime b \<noteq> [] \<and> bt_endTime b \<noteq> []"
  then show "clickBlock mkDate sched b = handleBlockTime mkDate sched b"
    by (simp add: clickBlock_def isValid_def timeOrderOk_def)
qed

lemma overnight_block_created:
  "handleBlockTime example_dates example_schedule
     (example_block ''2026-03-10'' ''2026-03-11'' ''20:00'' ''05:00'')
   = BlockCreated \<lparr>slot_schedule = ''Schedule/sch-1'', slot_status = ''busy-unavailable'',
       slot_start = local_datetime 0 2026 3 10 20 0, slot_end = local_datetime 0 2026 3 11 5 0,
       slot_id = None, slot_comment = None\<rparr>"
  by (simp add: handleBlockTime_def createBlockSlots_def example_block_def example_dates_def
      example_schedule_def createReference_def or_undefined_def)

theorem same_day_time_order_rejected_witness:
  "clickBlock example_dates example_schedule
     (example_block ''2026-03-10'' ''2026-03-10'' ''15:00'' ''14:00'')
   = BlockDisabled ''End time must be after start time''
   \<and> clickBlock example_dates example_schedule
       (example_block ''2026-03-10'' ''2026-03-11'' ''20:00'' ''05:00'')
     = BlockCreated \<lparr>slot_schedule = ''Schedule/sch-1'', slot_status = ''busy-unavailable'',
         slot_start = local_datetime 0 2026 3 10 20 0, slot_end = local_datetime 0 2026 3 11 5 0,
         slot_id = None, slot_comment = None\<rparr>"
proof -
  let ?b = "example_block ''2026-03-10'' ''2026-03-10'' ''15:00'' ''14:00''"
  let ?c = "example_block ''2026-03-10'' ''2026-03-11'' ''20:00'' ''05:00''"
  have hb: "\<not> bt_allDay ?b \<and> sameDay ?b \<and> wf_time (bt_startTime ?b) \<and> wf_time (bt_endTime ?b)
      \<and> minutes_of (bt_endTime ?b) \<le> minutes_of (bt_startTime ?b)"
    by (simp add: example_block_def sameDay_def is_digit_def digit_val_def minutes_of_def)
  have hc: "\<not> sameDay ?c" "\<not> bt_allDay ?c \<and> dateOrderOk ?c \<and> bt_startTime ?c \<noteq> []
      \<and> bt_endTime ?c \<noteq> []"
    by (simp_all add: example_block_def sameDay_def dateOrderOk_def hasDates_def)
  from same_day_time_order_rejected [of ?b example_dates example_schedule] hb
  have a: "clickBlock example_dates example_schedule ?b
      = BlockDisabled ''End time must be after start time''"
    by blast
  from same_day_time_order_rejected [of ?c example_dates example_schedule] hc
  have "clickBlock example_dates example_schedule ?c
      = handleBlockTime example_dates example_schedule ?c"
    by blast
  with a show ?thesis
    by (simp only: overnight_block_created)
qed

subsection \<open>Blocks and existing appointments\<close>

text \<open>
  The calendar path refuses a block over a live appointment and creates nothing.
\<close>

lemma calendar_block_rejected:
  assumes "\<exists>apt \<in> set appointments. overlaps_live_appointment (r_start pending) (r_end pending) apt"
  shows "handleBlockFromCalendar (Some pending) (Some sched) (Some appointments) reason
    = BlockRejected
        ''You have an appointment during this time. Move or cancel it first to block.''"
proof -
  from assms
  have "find (overlaps_live_appointment (r_start pending) (r_end pending)) appointments \<noteq> None"
    by (auto simp: find_None_iff)
  then show ?thesis
    by (auto simp: handleBlockFromCalendar_def Let_def)
qed

text \<open>
  Claim C3 at a failing input. An appointment booked 14:30 to 15:30 on 2026-03-10 exists.
  The calendar path rejects a block 14:00 to 15:00 of that day; the availability dialog,
  which is given no appointments and makes no check, creates the Slot for the same
  interval.
\<close>

theorem dialog_block_over_appointment:
  "overlaps_live_appointment (local_datetime 0 2026 3 10 14 0) (local_datetime 0 2026 3 10 15 0)
     example_appointment
   \<and> handleBlockFromCalendar
       (Some \<lparr>r_start = local_datetime 0 2026 3 10 14 0, r_end = local_datetime 0 2026 3 10 15 0\<rparr>)
       (Some example_schedule) (Some [example_appointment]) ''''
     = BlockRejected
         ''You have an appointment during this time. Move or cancel it first to block.''
   \<and> clickBlock example_dates example_schedule
       (example_block ''2026-03-10'' ''2026-03-10'' ''14:00'' ''15:00'')
     = BlockCreated \<lparr>slot_schedule = ''Schedule/sch-1'', slot_status = ''busy-unavailable'',
         slot_start = local_datetime 0 2026 3 10 14 0, slot_end = local_datetime 0 2026 3 10 15 0,
         slot_id = None, slot_comment = None\<rparr>"
proof (intro conjI)
  show o: "overlaps_live_appointment (local_datetime 0 2026 3 10 14 0)
      (local_datetime 0 2026 3 10 15 0) example_appointment"
    by (simp add: overlaps_live_appointment_def example_appointment_def rangesOverlap_def
        local_datetime_def)
  show "handleBlockFromCalendar
       (Some \<lparr>r_start = local_datetime 0 2026 3 10 14 0, r_end = local_datetime 0 2026 3 10 15 0\<rparr>)
       (Some example_schedule) (Some [example_appointment]) ''''
     = BlockRejected
         ''You have an appointment during this time. Move or cancel it first to block.''"
    using o by (intro calendar_block_rejected) simp
  show "clickBlock example_dates example_schedule
       (example_block ''2026-03-10'' ''2026-03-10'' ''14:00'' ''15:00'')
     = BlockCreated \<lparr>slot_schedule = ''Schedule/sch-1'', slot_status = ''busy-unavailable'',
         slot_start = local_datetime 0 2026 3 10 14 0, slot_end = local_datetime 0 2026 3 10 15 0,
         slot_id = None, slot_comment = None\<rparr>"
    by (simp add: clickBlock_def isValid_def dateOrderOk_def hasDates_def timeOrderOk_def
        sameDay_def handleBlockTime_def createBlockSlots_def example_block_def
        example_dates_def example_schedule_def createReference_def or_undefined_def)
qed

subsection \<open>The displayed availability slots\<close>





















subsection \<open>Reading and printing times of day\<close>

lemma split_on_no_sep: "c \<notin> set s \<Longrightarrow> split_on c s = [s]"
  by (induction s) auto

lemma split_on_append_sep:
  "c \<notin> set s \<Longrightarrow> split_on c (s @ c # t) = s # split_on c t"
  by (induction s) auto



















subsection \<open>Durations and their rounded keys\<close>








subsection \<open>The first grouping pass\<close>


lemma build_groups_snoc: "build_groups (es @ [e]) = add_to_groups (build_groups es) e"
  by (simp add: build_groups_def)


lemma groups_map_of_step:
  "map_of (add_to_groups G e) k =
     (if k = group_key e
      then (case map_of G k of
              Some existing \<Rightarrow>
                Some (if we_day e \<in> set (g_days existing) then existing
                      else existing\<lparr>g_days := g_days existing @ [we_day e]\<rparr>)
            | None \<Rightarrow> Some \<lparr>g_startTime = we_startTime e,
                g_durationHours = we_durationHours e, g_days = [we_day e]\<rparr>)
      else map_of G k)"
  by (auto simp: add_to_groups_def Let_def update_conv' split: option.splits)

lemma groups_dom_step:
  "dom (map_of (add_to_groups G e)) = insert (group_key e) (dom (map_of G))"
  by (auto simp: groups_map_of_step dom_def split: if_splits option.splits)

lemma groups_dom: "dom (map_of (build_groups es)) = group_key ` set es"
proof (induction es rule: rev_induct)
  case Nil
  then show ?case by (simp add: build_groups_def)
next
  case (snoc x xs)
  then show ?case
    by (simp add: build_groups_snoc groups_dom_step)
qed

lemma groups_inv:
  "map_of (build_groups es) k = Some g \<Longrightarrow>
     k = (g_startTime g, Math_round (ntimes (g_durationHours g) (Some 100)))
     \<and> distinct (g_days g)
     \<and> set (g_days g) = {we_day e |e. e \<in> set es \<and> group_key e = k}
     \<and> (\<exists>e \<in> set es. group_key e = k \<and> g_durationHours g = we_durationHours e)"
proof (induction es arbitrary: g rule: rev_induct)
  case Nil
  then show ?case by (simp add: build_groups_def)
next
  case (snoc e es)
  let ?G = "build_groups es"
  show ?case
  proof (cases "k = group_key e")
    case False
    with snoc.prems have "map_of ?G k = Some g"
      by (simp add: build_groups_snoc groups_map_of_step)
    from snoc.IH [OF this] False show ?thesis
      by auto
  next
    case True
    show ?thesis
    proof (cases "map_of ?G k")
      case None
      with snoc.prems True
      have g: "g = \<lparr>g_startTime = we_startTime e, g_durationHours = we_durationHours e,
          g_days = [we_day e]\<rparr>"
        by (simp add: build_groups_snoc groups_map_of_step)
      have "\<And>e'. e' \<in> set es \<Longrightarrow> group_key e' \<noteq> k"
        using None groups_dom [of es] by (metis domIff imageI)
      then show ?thesis
        using True by (auto simp: g group_key_def)
    next
      case (Some existing)
      from snoc.IH [OF Some] have ih:
        "k = (g_startTime existing, Math_round (ntimes (g_durationHours existing) (Some 100)))"
        "distinct (g_days existing)"
        "set (g_days existing) = {we_day e' |e'. e' \<in> set es \<and> group_key e' = k}"
        "\<exists>e' \<in> set es. group_key e' = k \<and> g_durationHours existing = we_durationHours e'"
        by blast+
      from snoc.prems True Some
      have g: "g = (if we_day e \<in> set (g_days existing) then existing
                    else existing\<lparr>g_days := g_days existing @ [we_day e]\<rparr>)"
        by (simp add: build_groups_snoc groups_map_of_step)
      have days: "set (g_days g) = insert (we_day e) (set (g_days existing))"
        by (auto simp: g)
      have "{we_day e' |e'. e' \<in> set (es @ [e]) \<and> group_key e' = k}
          = insert (we_day e) {we_day e' |e'. e' \<in> set es \<and> group_key e' = k}"
        using True by auto
      with ih days have "set (g_days g) = {we_day e' |e'. e' \<in> set (es @ [e]) \<and> group_key e' = k}"
        by simp
      moreover have "distinct (g_days g)"
        using ih(2) by (simp add: g)
      moreover have "k = (g_startTime g, Math_round (ntimes (g_durationHours g) (Some 100)))"
        using ih(1) by (simp add: g)
      moreover have "\<exists>e' \<in> set (es @ [e]). group_key e' = k
          \<and> g_durationHours g = we_durationHours e'"
        using ih(4) by (auto simp: g)
      ultimately show ?thesis by blast
    qed
  qed
qed


lemma groups_days_distinct: "map_of (build_groups es) k = Some g \<Longrightarrow> distinct (g_days g)"
  by (rule groups_inv [THEN conjunct2, THEN conjunct1])



subsection \<open>The second grouping pass\<close>








subsection \<open>Reading back the emitted entries\<close>












subsection \<open>From the week to its groups\<close>












subsection \<open>The round trip\<close>














end
